theory Spec2Isabelle
  imports Main "HOL-Library.Multiset" "HOL-Library.Product_Lexorder"
begin

section \<open>Boat Issues Demo (app.py): data model\<close>

text \<open>
  The program is a Streamlit script over pandas, scikit-learn and fpdf. The functions of
  app.py are embedded as HOL functions. What the libraries compute from data this file
  cannot see (parsing the spreadsheet, Python's string methods on arbitrary text, date
  parsing, TF-IDF, k-means, the bytes of a PDF) is taken as a parameter, gathered in the
  records \<open>pandas\<close> and \<open>sklearn\<close> and the function \<open>fpdf_output\<close>; every theorem
  holds for all of them unless it names the library contract it needs as a hypothesis.
  What the libraries do with the data at hand (selecting and counting values, sorting the
  counts, grouping by month, refusing an empty series to plot or a character the font
  cannot encode) is written out.
\<close>

datatype py_error =
  KeyError string | AttributeError | ValueError | IndexError | EncodingError | LibraryError string

text \<open>A spreadsheet cell as \<open>pd.read_excel\<close> hands it over: missing, text, a number
  or a timestamp.\<close>

record timestamp =
  year :: int
  month :: nat
  day :: nat
  hour :: nat
  minute :: nat

datatype cell = NaN | Str string | Num int | Stamp timestamp

text \<open>The frame returned by \<open>pd.read_excel\<close>: the header row and the data rows. A row
  shorter than the header has missing cells at its end.\<close>

record frame =
  header :: "string list"
  body :: "cell list list"

text \<open>One row of the working table: the four normalized columns and the column that
  \<open>ai_cluster_issues\<close> adds. \<open>None\<close> is pandas' missing marker (NaN, NaT).
  Passthrough columns of the spreadsheet are not carried.\<close>

record row =
  boat_name :: "string option"
  boat_issue :: "string option"
  boat_issue_class :: "string option"
  date :: "timestamp option"
  ai_category :: "int option"

datatype 'u source = Path string | Upload 'u

record 'u pandas =
  read_excel :: "'u source \<Rightarrow> py_error + frame"
  str_strip :: "string \<Rightarrow> string"
  str_lower :: "string \<Rightarrow> string"
  str_title :: "string \<Rightarrow> string"
  str_accessor_ok :: "cell list \<Rightarrow> bool"
  to_datetime_coerce :: "cell list \<Rightarrow> py_error + timestamp option list"

text \<open>\<open>fit_predict S n_clusters random_state n_init g X\<close>: \<open>g\<close> is the state of
  the process-wide random generator, which k-means draws from when \<open>random_state\<close> is
  \<open>None\<close>.\<close>

record ('x, 'g) sklearn =
  fit_transform :: "string list \<Rightarrow> py_error + 'x"
  fit_predict :: "int \<Rightarrow> int option \<Rightarrow> int \<Rightarrow> 'g \<Rightarrow> 'x \<Rightarrow> py_error + int list"

section \<open>Helpers for exceptions and pandas selections\<close>

definition and_then :: "'e + 'a \<Rightarrow> ('a \<Rightarrow> 'e + 'b) \<Rightarrow> 'e + 'b" where
  "and_then r f = (case r of Inl e \<Rightarrow> Inl e | Inr v \<Rightarrow> f v)"

fun dropna :: "'a option list \<Rightarrow> 'a list" where
  "dropna [] = []"
| "dropna (None # xs) = dropna xs"
| "dropna (Some x # xs) = x # dropna xs"

definition cell_at :: "cell list \<Rightarrow> nat \<Rightarrow> cell" where
  "cell_at r i = (if i < length r then r ! i else NaN)"

definition positions :: "string list \<Rightarrow> string \<Rightarrow> nat list" where
  "positions names c = filter (\<lambda>i. names ! i = c) [0..<length names]"

text \<open>\<open>df[c]\<close>: a KeyError when no column has the name, a Series when exactly one has,
  a DataFrame when several have.\<close>

datatype selection = Absent | Series "cell list" | SubFrame

definition getitem :: "string list \<Rightarrow> cell list list \<Rightarrow> string \<Rightarrow> selection" where
  "getitem names rows c =
     (case positions names c of
        [] \<Rightarrow> Absent
      | [i] \<Rightarrow> Series (map (\<lambda>r. cell_at r i) rows)
      | _ \<Rightarrow> SubFrame)"

text \<open>\<open>df[c].str\<close>: a DataFrame has no \<open>.str\<close>; on a Series pandas checks the
  values' type.\<close>

definition str_series :: "'u pandas \<Rightarrow> string list \<Rightarrow> cell list list \<Rightarrow> string \<Rightarrow> py_error + cell list" where
  "str_series P names rows c =
     (case getitem names rows c of
        Absent \<Rightarrow> Inl (KeyError c)
      | SubFrame \<Rightarrow> Inl AttributeError
      | Series col \<Rightarrow> if str_accessor_ok P col then Inr col else Inl AttributeError)"

text \<open>A \<open>.str\<close> method works on the text cells and leaves the missing marker for every
  other cell.\<close>

fun str_cell :: "(string \<Rightarrow> string) \<Rightarrow> cell \<Rightarrow> cell" where
  "str_cell f (Str s) = Str (f s)"
| "str_cell f c = NaN"

definition str_again :: "'u pandas \<Rightarrow> cell list \<Rightarrow> py_error + cell list" where
  "str_again P col = (if str_accessor_ok P col then Inr col else Inl AttributeError)"

fun text_of :: "cell \<Rightarrow> string option" where
  "text_of (Str s) = Some s"
| "text_of c = None"

definition date_at :: "timestamp option list \<Rightarrow> nat \<Rightarrow> timestamp option" where
  "date_at ds i = (if i < length ds then ds ! i else None)"

section \<open>load_data\<close>

text \<open>Line 24: \<open>df.columns.str.strip().str.lower().str.replace(" ", "_")\<close>.\<close>

definition normalize_column :: "'u pandas \<Rightarrow> string \<Rightarrow> string" where
  "normalize_column P c =
     map (\<lambda>ch. if ch = CHR '' '' then CHR ''_'' else ch) (str_lower P (str_strip P c))"

text \<open>Lines 22 to 29. The four statements run in the source's order, so the first one that
  raises decides the error. \<open>pd.to_datetime\<close> of a DataFrame (two columns named
  \<open>date\<close>) raises a ValueError.\<close>

definition load_data :: "'u pandas \<Rightarrow> 'u source \<Rightarrow> py_error + row list" where
  "load_data P file =
     and_then (read_excel P file) (\<lambda>df.
       let names = map (normalize_column P) (header df); rows = body df in
       and_then (str_series P names rows ''boat_name'') (\<lambda>c1.
       and_then (str_again P (map (str_cell (str_strip P)) c1)) (\<lambda>c2.
       let names_col = map (str_cell (str_lower P)) c2 in
       and_then (str_series P names rows ''boat_issue'') (\<lambda>c3.
       let issue_col = map (str_cell (str_strip P)) c3 in
       and_then (str_series P names rows ''boat_issue_(class)'') (\<lambda>c4.
       and_then (str_again P (map (str_cell (str_strip P)) c4)) (\<lambda>c5.
       let class_col = map (str_cell (str_title P)) c5 in
       and_then (case getitem names rows ''date'' of
                   Absent \<Rightarrow> Inl (KeyError ''date'')
                 | SubFrame \<Rightarrow> Inl ValueError
                 | Series c6 \<Rightarrow> to_datetime_coerce P c6) (\<lambda>date_col.
       Inr (map (\<lambda>i. \<lparr> boat_name = text_of (names_col ! i),
                       boat_issue = text_of (issue_col ! i),
                       boat_issue_class = text_of (class_col ! i),
                       date = date_at date_col i,
                       ai_category = None \<rparr>) [0..<length rows]))))))))"

section \<open>ai_cluster_issues\<close>

text \<open>Line 37: \<open>df.loc[df["boat_issue"].notna(), "ai_category"] = clusters\<close> writes the
  labels, in order, into the rows whose \<open>boat_issue\<close> is not missing and leaves the other
  rows as they are.\<close>

fun loc_assign :: "row list \<Rightarrow> int list \<Rightarrow> row list" where
  "loc_assign [] ls = []"
| "loc_assign (r # rs) ls =
     (case boat_issue r of
        None \<Rightarrow> r # loc_assign rs ls
      | Some t \<Rightarrow>
          (case ls of
             [] \<Rightarrow> r # loc_assign rs []
           | l # ls' \<Rightarrow> r\<lparr>ai_category := Some l\<rparr> # loc_assign rs ls'))"

text \<open>Lines 31 to 38. pandas raises a ValueError when the number of values assigned differs
  from the number of rows selected.\<close>

definition ai_cluster_issues ::
  "('x, 'g) sklearn \<Rightarrow> 'g \<Rightarrow> row list \<Rightarrow> int \<Rightarrow> py_error + row list" where
  "ai_cluster_issues S g df n_clusters =
     (let issue_texts = dropna (map boat_issue df) in
      and_then (fit_transform S issue_texts) (\<lambda>X.
      and_then (fit_predict S n_clusters (Some 42) 10 g X) (\<lambda>clusters.
      if length clusters = length issue_texts
      then Inr (loc_assign df clusters)
      else Inl ValueError)))"

section \<open>Summaries and charts\<close>

text \<open>The distinct values of a column in the order they are first met, as pandas' hash
  table keeps them.\<close>

fun unique :: "'a list \<Rightarrow> 'a list" where
  "unique [] = []"
| "unique (x # xs) = x # filter (\<lambda>y. y \<noteq> x) (unique xs)"

definition first_seen_counts :: "string option list \<Rightarrow> (string \<times> nat) list" where
  "first_seen_counts col = map (\<lambda>v. (v, count_list col (Some v))) (dropna (unique col))"

text \<open>\<open>sort_values(ascending=False)\<close>: pandas reverses the values, sorts them ascending
  and reverses the result. The ascending sort is taken to keep equal counts in the order
  it finds them, so that equal counts come out in the order they went in.\<close>

definition sort_values_desc :: "(string \<times> nat) list \<Rightarrow> (string \<times> nat) list" where
  "sort_values_desc xs = rev (sort_key snd (rev xs))"

text \<open>\<open>Series.value_counts()\<close>: the missing marker is dropped, every distinct value is
  paired with its number of occurrences, and the pairs are sorted by descending count.\<close>

definition value_counts :: "string option list \<Rightarrow> (string \<times> nat) list" where
  "value_counts col = sort_values_desc (first_seen_counts col)"

text \<open>A figure handed to \<open>st.pyplot\<close>: title, x label, y label and the plotted series.\<close>

datatype chart =
  BarH string string string "(string \<times> nat) list"
| Line string string string "((int \<times> nat) \<times> nat) list"

text \<open>Lines 40 to 48. \<open>counts.plot(kind="barh")\<close> raises an IndexError when \<open>counts\<close> is
  empty; the figure is then never handed to \<open>st.pyplot\<close>.\<close>

definition plot_top_issues :: "row list \<Rightarrow> py_error + chart" where
  "plot_top_issues df =
     (let counts = take 10 (value_counts (map boat_issue_class df)) in
      if counts = [] then Inl IndexError
      else Inr (BarH ''Top 10 Recurring Boat Issue Types'' ''Number of Reports'' ''Issue Type'' counts))"

text \<open>Lines 50 to 58.\<close>

definition plot_top_boats :: "row list \<Rightarrow> py_error + chart" where
  "plot_top_boats df =
     (let counts = take 10 (value_counts (map boat_name df)) in
      if counts = [] then Inl IndexError
      else Inr (BarH ''Top 10 Boats by Reported Issues'' ''Number of Reports'' ''Boat Name'' counts))"

text \<open>\<open>.dt.to_period("M")\<close>: the calendar month, as year and month.\<close>

definition to_period_M :: "timestamp \<Rightarrow> int \<times> nat" where
  "to_period_M t = (year t, month t)"

text \<open>\<open>df.groupby(keys).size()\<close>: rows with a missing key are dropped, the groups come
  in ascending key order, each with its number of rows.\<close>

definition groupby_size :: "('k::linorder) option list \<Rightarrow> ('k \<times> nat) list" where
  "groupby_size keys =
     (let ks = dropna keys in map (\<lambda>k. (k, count_list ks k)) (sort (remdups ks)))"

text \<open>Lines 60 to 67. \<open>issues_over_time.plot(kind="line")\<close> raises a ValueError when no
  record has a date and the series is empty.\<close>

definition plot_timeline :: "row list \<Rightarrow> py_error + chart" where
  "plot_timeline df =
     (let issues_over_time = groupby_size (map (\<lambda>r. map_option to_period_M (date r)) df) in
      if issues_over_time = [] then Inl ValueError
      else Inr (Line ''Reported Issues Over Time'' ''Month'' ''Number of Issues'' issues_over_time))"

section \<open>export_pdf\<close>

fun digit_char :: "nat \<Rightarrow> char" where
  "digit_char n = char_of (48 + n)"

fun str_of_nat :: "nat \<Rightarrow> string" where
  "str_of_nat n = (if n < 10 then [digit_char n] else str_of_nat (n div 10) @ [digit_char (n mod 10)])"

declare str_of_nat.simps [simp del]

definition pad2 :: "nat \<Rightarrow> string" where
  "pad2 n = (if n < 10 then CHR ''0'' # str_of_nat n else str_of_nat n)"

text \<open>\<open>strftime('%Y-%m-%d %H:%M')\<close> of the clock reading (a year of four digits).\<close>

definition strftime_ymd_hm :: "timestamp \<Rightarrow> string" where
  "strftime_ymd_hm t =
     str_of_nat (nat (year t)) @ ''-'' @ pad2 (month t) @ ''-'' @ pad2 (day t) @ '' '' @
     pad2 (hour t) @ '':'' @ pad2 (minute t)"

text \<open>The calls made on the FPDF object, in order. \<open>Cell w h txt ln align\<close>.\<close>

datatype pdf_op =
  SetAutoPageBreak bool nat
| AddPage
| SetFont string nat
| Cell nat nat string bool string

definition count_line :: "string \<times> nat \<Rightarrow> pdf_op" where
  "count_line e = Cell 200 8 (fst e @ '': '' @ str_of_nat (snd e)) True []"

text \<open>With the built-in font Arial, fpdf encodes the text of a cell in Latin-1 and raises
  when a character has no Latin-1 code. A Python string is held here as its UTF-8 bytes,
  where the characters up to U+00FF are those whose bytes all lie below 0xC4.\<close>

definition latin1 :: "string \<Rightarrow> bool" where
  "latin1 s = list_all (\<lambda>c. (of_char c :: nat) < 196) s"

fun cell_ok :: "pdf_op \<Rightarrow> bool" where
  "cell_ok (Cell w h txt ln align) = latin1 txt"
| "cell_ok c = True"

text \<open>Lines 69 to 93. \<open>fpdf_output\<close> is the library turning the calls into the bytes
  written to the buffer. The function returns the table as it leaves it, and the buffer or
  the exception.\<close>

definition export_pdf ::
  "(pdf_op list \<Rightarrow> 'b) \<Rightarrow> timestamp \<Rightarrow> row list \<Rightarrow> row list \<times> (py_error + 'b)" where
  "export_pdf fpdf_output now df =
     (let top_issues = take 10 (value_counts (map boat_issue_class df));
          top_boats = take 10 (value_counts (map boat_name df));
          pdf = [SetAutoPageBreak True 15, AddPage, SetFont ''Arial'' 14,
                 Cell 200 10 ''Boat Issues Report'' True ''C'',
                 SetFont ''Arial'' 12,
                 Cell 200 10 (''Generated: '' @ strftime_ymd_hm now) True [],
                 Cell 200 10 ''Top Issues:'' True []]
                @ map count_line top_issues
                @ [Cell 200 10 ''Top Boats:'' True []]
                @ map count_line top_boats
      in (df, if list_all cell_ok pdf then Inr (fpdf_output pdf) else Inl EncodingError))"

section \<open>The script\<close>

text \<open>What the script puts on the page. \<open>DownloadButton label data file_name mime\<close>.\<close>

datatype 'b widget =
  Title string
| Write string
| FileUploader
| Pyplot chart
| Subheader string
| Selectbox "int list"
| WriteTable "(string option \<times> string option \<times> string option) list"
| DownloadButton string 'b string string

definition DEFAULT_FILE :: string where
  "DEFAULT_FILE = ''chicago_boat_issues.xlsx''"

text \<open>Lines 98 to 133, top to bottom. The result is what has been put on the page and the
  exception that stopped the script, if one did. \<open>uploaded\<close> is the state of the file
  uploader, \<open>choice\<close> the position selected in the category selector. The three leading
  characters of the title, the subheader and the button label are the UTF-8 bytes of the
  source's pictographs U+1F6A4, U+1F50D and U+1F4C4.\<close>

definition run_app ::
  "'u pandas \<Rightarrow> ('x, 'g) sklearn \<Rightarrow> (pdf_op list \<Rightarrow> 'b) \<Rightarrow> 'g \<Rightarrow> timestamp
     \<Rightarrow> 'u option \<Rightarrow> nat \<Rightarrow> 'b widget list \<times> py_error option" where
  "run_app P S fpdf_output g now uploaded choice =
     (let page0 = [Title (CHR 0xF0 # CHR 0x9F # CHR 0x9A # CHR 0xA4 # '' Boat Maintenance Insights Demo''),
                   Write ''This demo shows how AI can instantly turn messy maintenance logs into actionable intelligence.'',
                   FileUploader] in
      case load_data P (case uploaded of Some f \<Rightarrow> Upload f | None \<Rightarrow> Path DEFAULT_FILE) of
        Inl e \<Rightarrow> (page0, Some e)
      | Inr df0 \<Rightarrow>
      (case ai_cluster_issues S g df0 6 of
        Inl e \<Rightarrow> (page0, Some e)
      | Inr df \<Rightarrow>
      (case plot_top_issues df of
        Inl e \<Rightarrow> (page0, Some e)
      | Inr fig1 \<Rightarrow>
      (case plot_top_boats df of
        Inl e \<Rightarrow> (page0 @ [Pyplot fig1], Some e)
      | Inr fig2 \<Rightarrow>
      (case plot_timeline df of
        Inl e \<Rightarrow> (page0 @ [Pyplot fig1, Pyplot fig2], Some e)
      | Inr fig3 \<Rightarrow>
      (let options = sort (remdups (dropna (map ai_category df)));
           category = (if choice < length options then Some (options ! choice) else None);
           shown = filter (\<lambda>r. category \<noteq> None \<and> ai_category r = category) df;
           page = page0 @ [Pyplot fig1, Pyplot fig2, Pyplot fig3,
                           Subheader (CHR 0xF0 # CHR 0x9F # CHR 0x94 # CHR 0x8D # '' AI-Categorized Issues''),
                           Selectbox options,
                           WriteTable (map (\<lambda>r. (boat_name r, boat_issue_class r, boat_issue r)) shown)]
       in case snd (export_pdf fpdf_output now df) of
            Inl e \<Rightarrow> (page, Some e)
          | Inr pdf_file \<Rightarrow>
              (page @ [DownloadButton (CHR 0xF0 # CHR 0x9F # CHR 0x93 # CHR 0x84 # '' Download PDF Report'')
                         pdf_file ''boat_issues_report.pdf'' ''application/pdf''], None)))))))"

section \<open>A small instance of the libraries\<close>

text \<open>Python's string methods on ASCII text, and simple stand-ins for the other library
  calls, used to run the model on concrete tables.\<close>

definition is_space :: "char \<Rightarrow> bool" where
  "is_space c = (c \<in> set [CHR '' '', CHR 0x09, CHR 0x0A, CHR 0x0B, CHR 0x0C, CHR 0x0D])"

definition ascii_strip :: "string \<Rightarrow> string" where
  "ascii_strip s = rev (dropWhile is_space (rev (dropWhile is_space s)))"

definition is_upper :: "char \<Rightarrow> bool" where
  "is_upper c = (65 \<le> (of_char c :: nat) \<and> (of_char c :: nat) \<le> 90)"

definition is_lower :: "char \<Rightarrow> bool" where
  "is_lower c = (97 \<le> (of_char c :: nat) \<and> (of_char c :: nat) \<le> 122)"

definition to_lower :: "char \<Rightarrow> char" where
  "to_lower c = (if is_upper c then char_of ((of_char c :: nat) + 32) else c)"

definition to_upper :: "char \<Rightarrow> char" where
  "to_upper c = (if is_lower c then char_of ((of_char c :: nat) - 32) else c)"

definition ascii_lower :: "string \<Rightarrow> string" where
  "ascii_lower s = map to_lower s"

fun title_from :: "bool \<Rightarrow> string \<Rightarrow> string" where
  "title_from prev [] = []"
| "title_from prev (c # cs) =
     (if prev then to_lower c else to_upper c) # title_from (is_upper c \<or> is_lower c) cs"

definition ascii_title :: "string \<Rightarrow> string" where
  "ascii_title s = title_from False s"

fun is_text :: "cell \<Rightarrow> bool" where
  "is_text (Str s) = True"
| "is_text c = False"

fun stamp_of :: "cell \<Rightarrow> timestamp option" where
  "stamp_of (Stamp t) = Some t"
| "stamp_of c = None"

definition demo_pandas :: "frame \<Rightarrow> unit pandas" where
  "demo_pandas fr =
     \<lparr> read_excel = (\<lambda>src. Inr fr),
       str_strip = ascii_strip,
       str_lower = ascii_lower,
       str_title = ascii_title,
       str_accessor_ok = (\<lambda>col. col = [] \<or> list_ex is_text col),
       to_datetime_coerce = (\<lambda>col. Inr (map stamp_of col)) \<rparr>"

text \<open>The stand-in for scikit-learn keeps the texts as their own vectors, refuses an empty
  corpus and fewer samples than clusters as scikit-learn does, and labels round-robin from
  an offset: the seed when one is given, the process-wide generator's state otherwise.\<close>

definition demo_sklearn :: "(string list, nat) sklearn" where
  "demo_sklearn =
     \<lparr> fit_transform = (\<lambda>texts. if texts = [] then Inl ValueError else Inr texts),
       fit_predict = (\<lambda>k seed n_init g X.
          if k \<le> 0 \<or> int (length X) < k then Inl ValueError
          else Inr (map (\<lambda>i. (int i + (case seed of None \<Rightarrow> int g | Some s \<Rightarrow> s)) mod k)
                      [0..<length X])) \<rparr>"

definition demo_fpdf :: "pdf_op list \<Rightarrow> pdf_op list" where
  "demo_fpdf ops = ops"

text \<open>Concrete tables.\<close>

definition stamp :: "int \<Rightarrow> nat \<Rightarrow> nat \<Rightarrow> timestamp" where
  "stamp y m d = \<lparr> year = y, month = m, day = d, hour = 0, minute = 0 \<rparr>"

definition demo_header :: "string list" where
  "demo_header = [''Boat Name'', ''Boat Issue'', ''Boat Issue (Class)'', ''Date'']"

definition demo_frame :: frame where
  "demo_frame =
     \<lparr> header = demo_header,
       body = [[Str '' Alpha'', Str ''engine stalls '', Str ''mechanical'', Stamp (stamp 2023 1 5)],
               [Str ''alpha'', Str ''engine stall'', Str ''Mechanical'', Stamp (stamp 2023 2 10)],
               [Str ''Beta'', Str ''leak'', Str ''hull'', Stamp (stamp 2023 1 20)],
               [Str ''beta'', NaN, Str ''Hull'', Str ''soon'']] \<rparr>"

definition demo_table :: "row list" where
  "demo_table =
     [\<lparr> boat_name = Some ''alpha'', boat_issue = Some ''engine stalls'',
        boat_issue_class = Some ''Mechanical'', date = Some (stamp 2023 1 5), ai_category = None \<rparr>,
      \<lparr> boat_name = Some ''alpha'', boat_issue = Some ''engine stall'',
        boat_issue_class = Some ''Mechanical'', date = Some (stamp 2023 2 10), ai_category = None \<rparr>,
      \<lparr> boat_name = Some ''beta'', boat_issue = Some ''leak'',
        boat_issue_class = Some ''Hull'', date = Some (stamp 2023 1 20), ai_category = None \<rparr>,
      \<lparr> boat_name = Some ''beta'', boat_issue = None,
        boat_issue_class = Some ''Hull'', date = None, ai_category = None \<rparr>]"

definition demo_labelled :: "row list" where
  "demo_labelled =
     [\<lparr> boat_name = Some ''alpha'', boat_issue = Some ''engine stalls'',
        boat_issue_class = Some ''Mechanical'', date = Some (stamp 2023 1 5), ai_category = Some 0 \<rparr>,
      \<lparr> boat_name = Some ''alpha'', boat_issue = Some ''engine stall'',
        boat_issue_class = Some ''Mechanical'', date = Some (stamp 2023 2 10), ai_category = Some 1 \<rparr>,
      \<lparr> boat_name = Some ''beta'', boat_issue = Some ''leak'',
        boat_issue_class = Some ''Hull'', date = Some (stamp 2023 1 20), ai_category = Some 0 \<rparr>,
      \<lparr> boat_name = Some ''beta'', boat_issue = None,
        boat_issue_class = Some ''Hull'', date = None, ai_category = None \<rparr>]"

text \<open>A spreadsheet whose second row has an issue cell of blanks only.\<close>

definition blank_issue_frame :: frame where
  "blank_issue_frame =
     \<lparr> header = demo_header,
       body = [[Str ''Alpha'', Str ''engine stalls'', Str ''mechanical'', Stamp (stamp 2023 1 5)],
               [Str ''Beta'', Str ''   '', Str ''hull'', Stamp (stamp 2023 1 20)]] \<rparr>"

definition blank_issue_table :: "row list" where
  "blank_issue_table =
     [\<lparr> boat_name = Some ''alpha'', boat_issue = Some ''engine stalls'',
        boat_issue_class = Some ''Mechanical'', date = Some (stamp 2023 1 5), ai_category = None \<rparr>,
      \<lparr> boat_name = Some ''beta'', boat_issue = Some [],
        boat_issue_class = Some ''Hull'', date = Some (stamp 2023 1 20), ai_category = None \<rparr>]"

text \<open>A spreadsheet whose second row has empty boat-name and class cells.\<close>

definition missing_name_frame :: frame where
  "missing_name_frame =
     \<lparr> header = demo_header,
       body = [[Str ''Alpha'', Str ''engine stalls'', Str ''mechanical'', Stamp (stamp 2023 1 5)],
               [NaN, Str ''leak'', NaN, Stamp (stamp 2023 1 20)]] \<rparr>"

text \<open>A spreadsheet whose first row has an issue cell holding one blank.\<close>

definition empty_text_frame :: frame where
  "empty_text_frame =
     \<lparr> header = demo_header,
       body = [[Str ''Gamma'', Str '' '', Str ''hull'', Stamp (stamp 2023 3 1)],
               [Str ''Delta'', Str ''leak'', Str ''hull'', Stamp (stamp 2023 3 2)],
               [Str ''Delta'', NaN, Str ''hull'', Stamp (stamp 2023 3 3)]] \<rparr>"

definition empty_text_table :: "row list" where
  "empty_text_table =
     [\<lparr> boat_name = Some ''gamma'', boat_issue = Some [],
        boat_issue_class = Some ''Hull'', date = Some (stamp 2023 3 1), ai_category = None \<rparr>,
      \<lparr> boat_name = Some ''delta'', boat_issue = Some ''leak'',
        boat_issue_class = Some ''Hull'', date = Some (stamp 2023 3 2), ai_category = None \<rparr>,
      \<lparr> boat_name = Some ''delta'', boat_issue = None,
        boat_issue_class = Some ''Hull'', date = Some (stamp 2023 3 3), ai_category = None \<rparr>]"

text \<open>A table of three records with equal counts everywhere and no dates.\<close>

definition undated_table :: "row list" where
  "undated_table =
     [\<lparr> boat_name = Some ''zulu'', boat_issue = Some ''leak'',
        boat_issue_class = Some ''Hull'', date = None, ai_category = None \<rparr>,
      \<lparr> boat_name = Some ''alpha'', boat_issue = Some ''rust'',
        boat_issue_class = Some ''Engine'', date = None, ai_category = None \<rparr>,
      \<lparr> boat_name = Some ''mike'', boat_issue = Some ''crack'',
        boat_issue_class = Some ''Deck'', date = None, ai_category = None \<rparr>]"

text \<open>Spreadsheets of six rows, with dates and without.\<close>

definition fleet_frame :: frame where
  "fleet_frame =
     \<lparr> header = demo_header,
       body = [[Str ''Alpha'', Str ''engine stalls'', Str ''mechanical'', Stamp (stamp 2023 1 5)],
               [Str ''alpha'', Str ''engine stall'', Str ''Mechanical'', Stamp (stamp 2023 2 10)],
               [Str ''Beta'', Str ''leak'', Str ''hull'', Stamp (stamp 2023 1 20)],
               [Str ''Gamma'', Str ''rust'', Str ''hull'', Stamp (stamp 2023 2 11)],
               [Str ''Beta'', Str ''crack'', Str ''deck'', Stamp (stamp 2023 3 1)],
               [Str ''alpha'', Str ''no power'', Str ''electrical'', Str ''soon'']] \<rparr>"

definition undated_frame :: frame where
  "undated_frame =
     \<lparr> header = demo_header,
       body = [[Str ''Alpha'', Str ''engine stalls'', Str ''mechanical'', NaN],
               [Str ''alpha'', Str ''engine stall'', Str ''Mechanical'', NaN],
               [Str ''Beta'', Str ''leak'', Str ''hull'', NaN],
               [Str ''Gamma'', Str ''rust'', Str ''hull'', NaN],
               [Str ''Beta'', Str ''crack'', Str ''deck'', NaN],
               [Str ''alpha'', Str ''no power'', Str ''electrical'', Str ''soon'']] \<rparr>"

section \<open>What the specification asks of the summaries and of the document\<close>








section \<open>Properties of ai_cluster_issues\<close>

lemma and_then_Inr_iff: "(and_then r f = Inr v) = (\<exists>a. r = Inr a \<and> f a = Inr v)"
  by (cases r) (simp_all add: and_then_def)

lemma length_loc_assign: "length (loc_assign df ls) = length df"
  by (induction df ls rule: loc_assign.induct) (auto split: option.splits list.splits)

lemma loc_assign_keeps_columns:
  "map boat_name (loc_assign df ls) = map boat_name df \<and>
   map boat_issue (loc_assign df ls) = map boat_issue df \<and>
   map boat_issue_class (loc_assign df ls) = map boat_issue_class df \<and>
   map date (loc_assign df ls) = map date df"
  by (induction df ls rule: loc_assign.induct) (auto split: option.splits list.splits)

lemma loc_assign_labelled:
  "length ls = length (dropna (map boat_issue df)) \<Longrightarrow>
   map ai_category (filter (\<lambda>r. boat_issue r \<noteq> None) (loc_assign df ls)) = map Some ls"
proof (induction df ls rule: loc_assign.induct)
  case (1 ls)
  then show ?case by simp
next
  case (2 r rs ls)
  show ?case
  proof (cases "boat_issue r")
    case None
    with 2 show ?thesis by simp
  next
    case (Some t)
    with 2 show ?thesis by (cases ls) simp_all
  qed
qed

lemma loc_assign_unlabelled:
  "i < length df \<Longrightarrow> boat_issue (df ! i) = None \<Longrightarrow> loc_assign df ls ! i = df ! i"
proof (induction df ls arbitrary: i rule: loc_assign.induct)
  case (1 ls)
  then show ?case by simp
next
  case (2 r rs ls)
  then show ?case
    by (cases i) (auto split: option.splits list.splits)
qed

lemma loc_assign_nth:
  "length ls = length (dropna (map boat_issue df)) \<Longrightarrow> i < length df \<Longrightarrow>
   boat_issue (df ! i) \<noteq> None \<Longrightarrow>
   ai_category (loc_assign df ls ! i) = Some (ls ! length (dropna (map boat_issue (take i df))))"
proof (induction df ls arbitrary: i rule: loc_assign.induct)
  case (1 ls)
  then show ?case by simp
next
  case (2 r rs ls)
  show ?case
  proof (cases "boat_issue r")
    case None
    with 2 show ?thesis by (cases i) auto
  next
    case (Some t)
    with 2 show ?thesis by (cases ls; cases i) auto
  qed
qed

lemma ai_cluster_issues_Inr:
  "ai_cluster_issues S g df k = Inr df' \<Longrightarrow>
   \<exists>X ls. fit_transform S (dropna (map boat_issue df)) = Inr X \<and>
          fit_predict S k (Some 42) 10 g X = Inr ls \<and>
          length ls = length (dropna (map boat_issue df)) \<and>
          df' = loc_assign df ls"
  by (auto simp add: ai_cluster_issues_def Let_def and_then_Inr_iff split: if_splits)


lemma demo_load: "load_data (demo_pandas demo_frame) (Path DEFAULT_FILE) = Inr demo_table"
  by code_simp

lemma demo_cluster: "ai_cluster_issues demo_sklearn 0 demo_table 2 = Inr demo_labelled"
  by code_simp

lemma demo_fresh: "\<forall>r\<in>set demo_table. ai_category r = None"
  by (simp add: demo_table_def)

text \<open>Claim C1, as the code has it. When \<open>ai_cluster_issues\<close> returns, on a table that
  had no \<open>ai_category\<close> yet, the table has the same rows with the same \<open>boat_issue\<close>, and
  a row has an \<open>ai_category\<close> if and only if its \<open>boat_issue\<close> is not the missing marker.
  Text that is empty after trimming is not missing: such a row gets a label too.\<close>

theorem ai_category_defined_iff_issue_present:
  assumes ok: "ai_cluster_issues S g df k = Inr df'"
    and fresh: "\<forall>r\<in>set df. ai_category r = None"
  shows "length df' = length df \<and>
         (\<forall>i<length df. boat_issue (df' ! i) = boat_issue (df ! i) \<and>
            ((ai_category (df' ! i) \<noteq> None) = (boat_issue (df ! i) \<noteq> None)))"
proof -
  from ai_cluster_issues_Inr [OF ok] obtain ls where
    len: "length ls = length (dropna (map boat_issue df))" and df': "df' = loc_assign df ls"
    by blast
  have l: "length df' = length df" by (simp add: df' length_loc_assign)
  have "boat_issue (df' ! i) = boat_issue (df ! i) \<and>
        ((ai_category (df' ! i) \<noteq> None) = (boat_issue (df ! i) \<noteq> None))" if i: "i < length df" for i
  proof -
    have "map boat_issue df' ! i = map boat_issue df ! i"
      using loc_assign_keeps_columns [of df ls] by (simp add: df')
    then have same: "boat_issue (df' ! i) = boat_issue (df ! i)" using i l by simp
    show ?thesis
    proof (cases "boat_issue (df ! i)")
      case None
      then have "df' ! i = df ! i" using i by (simp add: df' loc_assign_unlabelled)
      moreover have "ai_category (df ! i) = None" using fresh i by simp
      ultimately show ?thesis using None same by simp
    next
      case (Some t)
      then show ?thesis using loc_assign_nth [OF len i] same by (simp add: df')
    qed
  qed
  with l show ?thesis by blast
qed

text \<open>The statement above at the four-row table, clustered into two groups.\<close>

theorem ai_category_defined_iff_issue_present_witness:
  "ai_cluster_issues demo_sklearn 0 demo_table 2 = Inr demo_labelled \<and>
   map ai_category demo_table = [None, None, None, None] \<and>
   length demo_labelled = length demo_table \<and>
   map boat_issue demo_labelled = map boat_issue demo_table \<and>
   map (\<lambda>r. ai_category r \<noteq> None) demo_labelled = map (\<lambda>r. boat_issue r \<noteq> None) demo_table"
proof -
  note t = ai_category_defined_iff_issue_present [OF demo_cluster demo_fresh]
  have 1: "map boat_issue demo_labelled = map boat_issue demo_table"
    using t by (intro nth_equalityI) simp_all
  have 2: "map (\<lambda>r. ai_category r \<noteq> None) demo_labelled = map (\<lambda>r. boat_issue r \<noteq> None) demo_table"
    using t by (intro nth_equalityI) simp_all
  have 3: "map ai_category demo_table = [None, None, None, None]"
    by (simp add: demo_table_def)
  show ?thesis using demo_cluster t 1 2 3 by blast
qed

text \<open>Claim C1 as stated fails. A spreadsheet row whose issue cell holds three blanks is
  loaded with \<open>boat_issue\<close> equal to the empty string, which \<open>dropna\<close> and \<open>notna\<close>
  keep, and the row receives the label 1.\<close>

theorem blank_issue_gets_label:
  "load_data (demo_pandas blank_issue_frame) (Path DEFAULT_FILE) = Inr blank_issue_table \<and>
   ai_cluster_issues demo_sklearn 0 blank_issue_table 2 =
     Inr [\<lparr> boat_name = Some ''alpha'', boat_issue = Some ''engine stalls'',
            boat_issue_class = Some ''Mechanical'', date = Some (stamp 2023 1 5),
            ai_category = Some 0 \<rparr>,
          \<lparr> boat_name = Some ''beta'', boat_issue = Some [],
            boat_issue_class = Some ''Hull'', date = Some (stamp 2023 1 20),
            ai_category = Some 1 \<rparr>]"
  by code_simp

text \<open>Claim C4, as the code has it. When clustering succeeds, on a table that had no
  \<open>ai_category\<close> yet and with a k-means whose labels lie in \<open>[0, k)\<close>: the labels are
  those computed from the non-missing issue texts in table order, the records with a
  non-missing issue carry them in that order (the record at position \<open>i\<close> carries the
  label whose index is the number of non-missing records before \<open>i\<close>), the records whose
  issue is the missing marker carry none, and every label stored lies in \<open>[0, k)\<close>.
  A record whose issue text is present but empty is one of the non-missing records and
  carries a label.\<close>

theorem ai_cluster_issues_labels_in_order:
  assumes ok: "ai_cluster_issues S g df k = Inr df'"
    and range: "\<forall>X ls. fit_predict S k (Some 42) 10 g X = Inr ls \<longrightarrow> (\<forall>l\<in>set ls. 0 \<le> l \<and> l < k)"
    and fresh: "\<forall>r\<in>set df. ai_category r = None"
  shows "\<exists>X ls. fit_transform S (dropna (map boat_issue df)) = Inr X \<and>
           fit_predict S k (Some 42) 10 g X = Inr ls \<and>
           length df' = length df \<and>
           map ai_category (filter (\<lambda>r. boat_issue r \<noteq> None) df') = map Some ls \<and>
           (\<forall>i<length df.
              (case boat_issue (df ! i) of
                 None \<Rightarrow> ai_category (df' ! i) = None
               | Some t \<Rightarrow> ai_category (df' ! i) =
                            Some (ls ! length (dropna (map boat_issue (take i df)))))) \<and>
           (\<forall>r\<in>set df'. \<forall>l. ai_category r = Some l \<longrightarrow> 0 \<le> l \<and> l < k)"
proof -
  from ai_cluster_issues_Inr [OF ok] obtain X ls where
    ft: "fit_transform S (dropna (map boat_issue df)) = Inr X" and
    fp: "fit_predict S k (Some 42) 10 g X = Inr ls" and
    len: "length ls = length (dropna (map boat_issue df))" and df': "df' = loc_assign df ls"
    by blast
  have l: "length df' = length df" by (simp add: df' length_loc_assign)
  have inorder: "map ai_category (filter (\<lambda>r. boat_issue r \<noteq> None) df') = map Some ls"
    using loc_assign_labelled [OF len] by (simp add: df')
  have rng: "\<forall>l\<in>set ls. 0 \<le> l \<and> l < k" using range fp by blast
  have nth: "(case boat_issue (df ! i) of
                 None \<Rightarrow> ai_category (df' ! i) = None
               | Some t \<Rightarrow> ai_category (df' ! i) =
                            Some (ls ! length (dropna (map boat_issue (take i df)))))"
    if i: "i < length df" for i
  proof (cases "boat_issue (df ! i)")
    case None
    then have "df' ! i = df ! i" using i by (simp add: df' loc_assign_unlabelled)
    moreover have "ai_category (df ! i) = None" using fresh i by simp
    ultimately show ?thesis using None by simp
  next
    case (Some t)
    then show ?thesis using loc_assign_nth [OF len i] by (simp add: df')
  qed
  have inrange: "0 \<le> l \<and> l < k" if r: "r \<in> set df'" and c: "ai_category r = Some l" for r l
  proof -
    from r obtain i where i: "i < length df'" and ri: "df' ! i = r"
      by (auto simp add: in_set_conv_nth)
    have i': "i < length df" using i l by simp
    show ?thesis
    proof (cases "boat_issue (df ! i)")
      case None
      with nth [OF i'] ri c show ?thesis by simp
    next
      case (Some t)
      have "boat_issue r \<noteq> None"
        using loc_assign_keeps_columns [of df ls] Some i' ri
        by (metis df' l nth_map option.distinct(1))
      then have "r \<in> set (filter (\<lambda>r. boat_issue r \<noteq> None) df')" using r by simp
      then have "ai_category r \<in> set (map Some ls)" using inorder by (metis image_eqI set_map)
      then have "l \<in> set ls" using c by auto
      then show ?thesis using rng by blast
    qed
  qed
  show ?thesis using ft fp l inorder nth inrange by blast
qed

lemma demo_range:
  "\<forall>X ls. fit_predict demo_sklearn 2 (Some 42) 10 (0::nat) X = Inr ls \<longrightarrow> (\<forall>l\<in>set ls. 0 \<le> l \<and> l < 2)"
  by (auto simp add: demo_sklearn_def split: if_splits)

text \<open>The statement above at the four-row table, clustered into two groups.\<close>

theorem ai_cluster_issues_labels_in_order_witness:
  "ai_cluster_issues demo_sklearn 0 demo_table 2 = Inr demo_labelled \<and>
   fit_predict demo_sklearn 2 (Some 42) 10 (0::nat) [''engine stalls'', ''engine stall'', ''leak'']
     = Inr [0, 1, 0] \<and>
   map ai_category demo_table = [None, None, None, None] \<and>
   map ai_category (filter (\<lambda>r. boat_issue r \<noteq> None) demo_labelled) = [Some 0, Some 1, Some 0] \<and>
   map ai_category demo_labelled = [Some 0, Some 1, Some 0, None]"
proof -
  from ai_cluster_issues_labels_in_order [OF demo_cluster demo_range demo_fresh]
  obtain X ls where
    ft: "fit_transform demo_sklearn (dropna (map boat_issue demo_table)) = Inr X" and
    fp: "fit_predict demo_sklearn 2 (Some 42) 10 (0::nat) X = Inr ls" and
    inorder: "map ai_category (filter (\<lambda>r. boat_issue r \<noteq> None) demo_labelled) = map Some ls"
    by blast
  have X: "X = [''engine stalls'', ''engine stall'', ''leak'']"
    using ft by (simp add: demo_sklearn_def demo_table_def)
  have "fit_predict demo_sklearn 2 (Some 42) 10 (0::nat) [''engine stalls'', ''engine stall'', ''leak'']
          = Inr [0, 1, 0]"
    by (simp add: demo_sklearn_def upt_rec)
  with fp X have ls: "ls = [0, 1, 0]" by simp
  have "map ai_category demo_labelled = [Some 0, Some 1, Some 0, None]"
    by (simp add: demo_labelled_def)
  moreover have "map ai_category demo_table = [None, None, None, None]"
    by (simp add: demo_table_def)
  ultimately show ?thesis using demo_cluster fp X ls inorder by simp
qed

text \<open>Claim C4 as stated fails. The first record's issue cell holds one blank and is loaded
  as the empty string; clustering into two groups succeeds and that record, whose issue
  text is empty, receives the label 0, while the record with the missing issue gets none.\<close>

theorem empty_text_receives_label:
  "load_data (demo_pandas empty_text_frame) (Path DEFAULT_FILE) = Inr empty_text_table \<and>
   ai_cluster_issues demo_sklearn 0 empty_text_table 2 =
     Inr [\<lparr> boat_name = Some ''gamma'', boat_issue = Some [],
            boat_issue_class = Some ''Hull'', date = Some (stamp 2023 3 1),
            ai_category = Some 0 \<rparr>,
          \<lparr> boat_name = Some ''delta'', boat_issue = Some ''leak'',
            boat_issue_class = Some ''Hull'', date = Some (stamp 2023 3 2),
            ai_category = Some 1 \<rparr>,
          \<lparr> boat_name = Some ''delta'', boat_issue = None,
            boat_issue_class = Some ''Hull'', date = Some (stamp 2023 3 3),
            ai_category = None \<rparr>]"
  by code_simp

text \<open>Claim C3. The seed handed to k-means is the constant 42, so two runs on the same
  table with the same cluster count give the same result whatever the state of the
  process-wide random generator at each run, for a k-means that does not read that
  generator when it is given the seed 42.\<close>

theorem ai_cluster_issues_seeded:
  assumes "\<forall>X. fit_predict S k (Some 42) 10 g X = fit_predict S k (Some 42) 10 g' X"
  shows "ai_cluster_issues S g df k = ai_cluster_issues S g' df k"
  using assms by (simp add: ai_cluster_issues_def)

text \<open>The statement above for the stand-in k-means, run in the generator states 0 and 7.\<close>

theorem ai_cluster_issues_seeded_witness:
  "(\<forall>X. fit_predict demo_sklearn 2 (Some 42) 10 (0::nat) X = fit_predict demo_sklearn 2 (Some 42) 10 (7::nat) X) \<and>
   ai_cluster_issues demo_sklearn 0 demo_table 2 = ai_cluster_issues demo_sklearn 7 demo_table 2"
proof -
  have h: "\<forall>X. fit_predict demo_sklearn 2 (Some 42) 10 (0::nat) X = fit_predict demo_sklearn 2 (Some 42) 10 (7::nat) X"
    by (simp add: demo_sklearn_def)
  show ?thesis using h ai_cluster_issues_seeded [OF h, of demo_table] by blast
qed

section \<open>Properties of the summaries\<close>

lemma set_dropna: "set (dropna xs) = {v. Some v \<in> set xs}"
  by (induction xs rule: dropna.induct) auto

lemma count_list_dropna: "count_list (dropna xs) v = count_list xs (Some v)"
  by (induction xs rule: dropna.induct) auto


lemma groupby_size_sum: "sum_list (map snd (groupby_size keys)) = length (dropna keys)"
proof -
  have "sum_list (map (count_list (dropna keys)) (sort (remdups (dropna keys))))
        = sum (count_list (dropna keys)) (set (dropna keys))"
    by (subst sum_list_distinct_conv_sum_set) simp_all
  also have "\<dots> = length (dropna keys)"
    by (rule sum_count_set) simp_all
  finally show ?thesis by (simp add: groupby_size_def Let_def comp_def)
qed

lemma groupby_size_keys: "map fst (groupby_size keys) = sort (remdups (dropna keys))"
  by (simp add: groupby_size_def Let_def comp_def)

lemma groupby_size_ascending: "sorted_wrt (<) (map fst (groupby_size keys))"
  by (simp add: groupby_size_keys strict_sorted_iff)

lemma groupby_size_entry:
  "((k, n) \<in> set (groupby_size keys)) = (n = count_list keys (Some k) \<and> 0 < n)"
proof -
  have pos: "(0 < count_list keys (Some k)) = (Some k \<in> set keys)"
    using count_list_0_iff [of keys "Some k"] by auto
  show ?thesis
    by (auto simp add: groupby_size_def Let_def set_dropna count_list_dropna pos)
qed

text \<open>Claim C6. The timeline summary has one bucket per calendar month (a year and a month
  of that year) in which some record's date falls, in chronological order: earlier year
  first, and within a year earlier month first. A bucket's count is the number of records
  whose date has that year and that month; records whose date is the missing marker are
  in no bucket, and the counts add up to the number of records with a date. The chart is
  drawn from that summary; when no record has a date the summary is empty and plotting
  raises.\<close>

theorem timeline_buckets:
  "\<exists>series.
     plot_timeline df =
       (if series = [] then Inl ValueError
        else Inr (Line ''Reported Issues Over Time'' ''Month'' ''Number of Issues'' series)) \<and>
     sorted_wrt (\<lambda>a b. fst (fst a) < fst (fst b) \<or>
                   (fst (fst a) = fst (fst b) \<and> snd (fst a) < snd (fst b))) series \<and>
     (\<forall>y m n. (((y, m), n) \<in> set series) =
        (n = length (filter (\<lambda>r. \<exists>t. date r = Some t \<and> year t = y \<and> month t = m) df) \<and> 0 < n)) \<and>
     sum_list (map snd series) = length (filter (\<lambda>r. date r \<noteq> None) df)"
proof -
  let ?keys = "map (\<lambda>r. map_option to_period_M (date r)) df"
  let ?series = "groupby_size ?keys"
  have 1: "sum_list (map snd ?series) = length (filter (\<lambda>r. date r \<noteq> None) df)"
  proof -
    have "length (dropna ?keys) = length (filter (\<lambda>r. date r \<noteq> None) df)"
      by (induction df) auto
    then show ?thesis by (simp add: groupby_size_sum)
  qed
  have 2: "count_list ?keys (Some (y, m)) =
           length (filter (\<lambda>r. \<exists>t. date r = Some t \<and> year t = y \<and> month t = m) df)" for y m
    by (induction df) (auto simp add: to_period_M_def)
  have 3: "sorted_wrt (\<lambda>a b. fst (fst a) < fst (fst b) \<or>
                   (fst (fst a) = fst (fst b) \<and> snd (fst a) < snd (fst b))) ?series"
  proof -
    have "sorted_wrt (\<lambda>a b. fst a < fst b) ?series"
      using groupby_size_ascending [of ?keys] by (simp add: sorted_wrt_map)
    then show ?thesis
      by (rule sorted_wrt_mono_rel [rotated]) (auto simp add: less_prod_def)
  qed
  have 4: "plot_timeline df =
       (if ?series = [] then Inl ValueError
        else Inr (Line ''Reported Issues Over Time'' ''Month'' ''Number of Issues'' ?series))"
    by (simp add: plot_timeline_def Let_def)
  have 5: "\<forall>y m n. (((y, m), n) \<in> set ?series) =
        (n = length (filter (\<lambda>r. \<exists>t. date r = Some t \<and> year t = y \<and> month t = m) df) \<and> 0 < n)"
    by (simp add: groupby_size_entry 2)
  show ?thesis using 1 3 4 5 by blast
qed

text \<open>The specification's scenario: two buckets, 2023-01 with two records and 2023-02 with
  one; the fourth row of the table has no date and is left out. With no dated record the
  plot raises.\<close>

lemma timeline_scenario:
  "plot_timeline demo_table =
     Inr (Line ''Reported Issues Over Time'' ''Month'' ''Number of Issues''
            [((2023, 1), 2), ((2023, 2), 1)])"
  by code_simp

lemma timeline_undated: "plot_timeline undated_table = Inl ValueError"
  by code_simp















lemma undated_top_boats:
  "plot_top_boats undated_table =
     Inr (BarH ''Top 10 Boats by Reported Issues'' ''Number of Reports'' ''Boat Name''
            [(''zulu'', 1), (''alpha'', 1), (''mike'', 1)])"
  by code_simp

lemma empty_top_issues: "plot_top_issues [] = Inl IndexError"
  by code_simp


section \<open>Properties of export_pdf\<close>










lemma latin1_digit: "k < 10 \<Longrightarrow> (of_char (char_of (48 + k :: nat)) :: nat) < 196"
  by simp











text \<open>Claim C10. Whether the library serialises the document or raises, the table after
  \<open>export_pdf\<close> is the table before it, every field of every record included.\<close>

theorem export_pdf_leaves_table:
  "fst (export_pdf fpdf_output now df) = df"
  by (simp add: export_pdf_def Let_def)




lemma export_non_latin1:
  "snd (export_pdf demo_fpdf (stamp 2026 11 4)
          [\<lparr> boat_name = Some [CHR 0xC5, CHR 0x82], boat_issue = Some ''leak'',
             boat_issue_class = Some ''Hull'', date = None, ai_category = None \<rparr>])
     = Inl EncodingError"
  by code_simp


section \<open>Properties of load_data\<close>

lemma str_series_Inr:
  "str_series P names rows c = Inr col \<Longrightarrow>
   \<exists>i. positions names c = [i] \<and> col = map (\<lambda>r. cell_at r i) rows"
  by (auto simp add: str_series_def getitem_def split: list.splits if_splits)

lemma str_again_Inr: "str_again P col = Inr c2 \<Longrightarrow> c2 = col"
  by (simp add: str_again_def split: if_splits)

lemma text_of_str_cell:
  "text_of (str_cell f (str_cell g c)) = (case c of Str s \<Rightarrow> Some (f (g s)) | _ \<Rightarrow> None)"
  by (cases c) simp_all

lemma load_data_Inr:
  assumes rd: "read_excel P file = Inr fr" and ok: "load_data P file = Inr df"
  shows "\<exists>c1 c2 c3 c4 c5 date_col.
     str_series P (map (normalize_column P) (header fr)) (body fr) ''boat_name'' = Inr c1 \<and>
     str_again P (map (str_cell (str_strip P)) c1) = Inr c2 \<and>
     str_series P (map (normalize_column P) (header fr)) (body fr) ''boat_issue'' = Inr c3 \<and>
     str_series P (map (normalize_column P) (header fr)) (body fr) ''boat_issue_(class)'' = Inr c4 \<and>
     str_again P (map (str_cell (str_strip P)) c4) = Inr c5 \<and>
     df = map (\<lambda>i. \<lparr> boat_name = text_of (map (str_cell (str_lower P)) c2 ! i),
                     boat_issue = text_of (map (str_cell (str_strip P)) c3 ! i),
                     boat_issue_class = text_of (map (str_cell (str_title P)) c5 ! i),
                     date = date_at date_col i,
                     ai_category = None \<rparr>) [0..<length (body fr)]"
proof -
  have "and_then (Inr fr) f = f fr" for f :: "frame \<Rightarrow> py_error + row list"
    by (simp add: and_then_def)
  with ok rd show ?thesis
    unfolding load_data_def Let_def by (simp only: and_then_Inr_iff) blast
qed

text \<open>Claim C8, as the code has it. When the loader accepts a spreadsheet, the table has
  one record per data row, and a record's \<open>boat_name\<close> (\<open>boat_issue_class\<close>) is
  non-null exactly when the row's cell in the one column of that name is text; it then is
  the cell stripped and lower-cased (stripped and title-cased). A missing or non-text cell
  gives a null field.\<close>

theorem load_data_null_fields:
  assumes rd: "read_excel P file = Inr fr"
    and ok: "load_data P file = Inr df"
  shows "\<exists>i j.
           positions (map (normalize_column P) (header fr)) ''boat_name'' = [i] \<and>
           positions (map (normalize_column P) (header fr)) ''boat_issue_(class)'' = [j] \<and>
           length df = length (body fr) \<and>
           (\<forall>n<length df.
              boat_name (df ! n) =
                (case cell_at (body fr ! n) i of
                   Str s \<Rightarrow> Some (str_lower P (str_strip P s)) | _ \<Rightarrow> None) \<and>
              boat_issue_class (df ! n) =
                (case cell_at (body fr ! n) j of
                   Str s \<Rightarrow> Some (str_title P (str_strip P s)) | _ \<Rightarrow> None))"
proof -
  let ?names = "map (normalize_column P) (header fr)"
  from load_data_Inr [OF rd ok] obtain c1 c2 c3 c4 c5 date_col where
    c1: "str_series P ?names (body fr) ''boat_name'' = Inr c1" and
    c2: "str_again P (map (str_cell (str_strip P)) c1) = Inr c2" and
    c4: "str_series P ?names (body fr) ''boat_issue_(class)'' = Inr c4" and
    c5: "str_again P (map (str_cell (str_strip P)) c4) = Inr c5" and
    df: "df = map (\<lambda>i. \<lparr> boat_name = text_of (map (str_cell (str_lower P)) c2 ! i),
                       boat_issue = text_of (map (str_cell (str_strip P)) c3 ! i),
                       boat_issue_class = text_of (map (str_cell (str_title P)) c5 ! i),
                       date = date_at date_col i,
                       ai_category = None \<rparr>) [0..<length (body fr)]"
    by blast
  from str_series_Inr [OF c1] obtain i where
    i: "positions ?names ''boat_name'' = [i]" and c1': "c1 = map (\<lambda>r. cell_at r i) (body fr)"
    by blast
  from str_series_Inr [OF c4] obtain j where
    j: "positions ?names ''boat_issue_(class)'' = [j]" and c4': "c4 = map (\<lambda>r. cell_at r j) (body fr)"
    by blast
  have c2': "c2 = map (str_cell (str_strip P)) c1" using str_again_Inr [OF c2] .
  have c5': "c5 = map (str_cell (str_strip P)) c4" using str_again_Inr [OF c5] .
  have len: "length df = length (body fr)" by (simp add: df)
  have "\<forall>n<length df.
          boat_name (df ! n) =
            (case cell_at (body fr ! n) i of
               Str s \<Rightarrow> Some (str_lower P (str_strip P s)) | _ \<Rightarrow> None) \<and>
          boat_issue_class (df ! n) =
            (case cell_at (body fr ! n) j of
               Str s \<Rightarrow> Some (str_title P (str_strip P s)) | _ \<Rightarrow> None)"
    by (simp add: df c2' c5' c1' c4' text_of_str_cell)
  with i j len show ?thesis by blast
qed

text \<open>Claim C8 as stated fails. A spreadsheet with both required columns, whose second row
  has empty boat-name and class cells, is accepted, and its second record has a null
  \<open>boat_name\<close> and a null \<open>boat_issue_class\<close>.\<close>

theorem missing_name_stays_null:
  "load_data (demo_pandas missing_name_frame) (Path DEFAULT_FILE) =
     Inr [\<lparr> boat_name = Some ''alpha'', boat_issue = Some ''engine stalls'',
            boat_issue_class = Some ''Mechanical'', date = Some (stamp 2023 1 5),
            ai_category = None \<rparr>,
          \<lparr> boat_name = None, boat_issue = Some ''leak'',
            boat_issue_class = None, date = Some (stamp 2023 1 20),
            ai_category = None \<rparr>]"
  by code_simp

lemma demo_read: "read_excel (demo_pandas fr) src = Inr fr"
  by (simp add: demo_pandas_def)

lemma demo_positions:
  "positions (map (normalize_column (demo_pandas demo_frame)) (header demo_frame)) ''boat_name'' = [0] \<and>
   positions (map (normalize_column (demo_pandas demo_frame)) (header demo_frame)) ''boat_issue_(class)'' = [2]"
  by code_simp

text \<open>The statement above at the four-row spreadsheet.\<close>

theorem load_data_null_fields_witness:
  "read_excel (demo_pandas demo_frame) (Path DEFAULT_FILE) = Inr demo_frame \<and>
   load_data (demo_pandas demo_frame) (Path DEFAULT_FILE) = Inr demo_table \<and>
   positions (map (normalize_column (demo_pandas demo_frame)) (header demo_frame)) ''boat_name'' = [0] \<and>
   positions (map (normalize_column (demo_pandas demo_frame)) (header demo_frame)) ''boat_issue_(class)'' = [2] \<and>
   length demo_table = length (body demo_frame) \<and>
   map boat_name demo_table = [Some ''alpha'', Some ''alpha'', Some ''beta'', Some ''beta''] \<and>
   map boat_issue_class demo_table = [Some ''Mechanical'', Some ''Mechanical'', Some ''Hull'', Some ''Hull'']"
proof -
  from load_data_null_fields [OF demo_read demo_load]
  have "length demo_table = length (body demo_frame)" by blast
  moreover have "map boat_name demo_table = [Some ''alpha'', Some ''alpha'', Some ''beta'', Some ''beta'']"
    by (simp add: demo_table_def)
  moreover have "map boat_issue_class demo_table =
      [Some ''Mechanical'', Some ''Mechanical'', Some ''Hull'', Some ''Hull'']"
    by (simp add: demo_table_def)
  ultimately show ?thesis using demo_read demo_load demo_positions by blast
qed

section \<open>Properties of the script\<close>

lemma ai_cluster_issues_Inl:
  "fit_transform S (dropna (map boat_issue df)) = Inr X \<Longrightarrow>
   fit_predict S k (Some 42) 10 g X = Inl e \<Longrightarrow>
   ai_cluster_issues S g df k = Inl e"
  by (simp add: ai_cluster_issues_def and_then_def)

text \<open>Claim C2, as the code has it. When k-means raises on the loaded table with 6 clusters,
  \<open>ai_cluster_issues\<close> raises the same exception, nothing in the script catches it,
  and the page holds the title, the introduction and the file uploader only: no chart, no
  category browser, no download button.\<close>

theorem clustering_error_stops_script:
  assumes ld: "load_data P (case uploaded of Some f \<Rightarrow> Upload f | None \<Rightarrow> Path DEFAULT_FILE) = Inr df0"
    and ft: "fit_transform S (dropna (map boat_issue df0)) = Inr X"
    and fp: "fit_predict S 6 (Some 42) 10 g X = Inl e"
  shows "ai_cluster_issues S g df0 6 = Inl e \<and>
         run_app P S fpdf_output g now uploaded choice =
           ([Title (CHR 0xF0 # CHR 0x9F # CHR 0x9A # CHR 0xA4 # '' Boat Maintenance Insights Demo''),
             Write ''This demo shows how AI can instantly turn messy maintenance logs into actionable intelligence.'',
             FileUploader], Some e)"
  using ai_cluster_issues_Inl [OF ft fp] ld by (simp add: run_app_def)

text \<open>Claim C2 as stated fails. With three non-missing issue descriptions and 6 clusters the
  script stops with the library's ValueError before any chart is drawn.\<close>

theorem three_descriptions_stop_script:
  "run_app (demo_pandas demo_frame) demo_sklearn demo_fpdf 0 (stamp 2026 11 4) None 0 =
     ([Title (CHR 0xF0 # CHR 0x9F # CHR 0x9A # CHR 0xA4 # '' Boat Maintenance Insights Demo''),
       Write ''This demo shows how AI can instantly turn messy maintenance logs into actionable intelligence.'',
       FileUploader], Some ValueError)"
  by code_simp

lemma demo_upload:
  "load_data (demo_pandas demo_frame) (case Some () of Some f \<Rightarrow> Upload f | None \<Rightarrow> Path DEFAULT_FILE)
     = Inr demo_table"
  by code_simp

lemma demo_vectors:
  "fit_transform demo_sklearn (dropna (map boat_issue demo_table)) =
     Inr [''engine stalls'', ''engine stall'', ''leak'']"
  by (simp add: demo_sklearn_def demo_table_def)

lemma demo_too_few:
  "fit_predict demo_sklearn 6 (Some 42) 10 (0::nat) [''engine stalls'', ''engine stall'', ''leak'']
     = Inl ValueError"
  by (simp add: demo_sklearn_def)

text \<open>The statement above at the four-row spreadsheet, uploaded by the user.\<close>

theorem clustering_error_stops_script_witness:
  "fit_transform demo_sklearn (dropna (map boat_issue demo_table)) =
     Inr [''engine stalls'', ''engine stall'', ''leak''] \<and>
   fit_predict demo_sklearn 6 (Some 42) 10 (0::nat) [''engine stalls'', ''engine stall'', ''leak'']
     = Inl ValueError \<and>
   ai_cluster_issues demo_sklearn 0 demo_table 6 = Inl ValueError \<and>
   run_app (demo_pandas demo_frame) demo_sklearn demo_fpdf 0 (stamp 2026 11 4) (Some ()) 0 =
     ([Title (CHR 0xF0 # CHR 0x9F # CHR 0x9A # CHR 0xA4 # '' Boat Maintenance Insights Demo''),
       Write ''This demo shows how AI can instantly turn messy maintenance logs into actionable intelligence.'',
       FileUploader], Some ValueError)"
  using clustering_error_stops_script [OF demo_upload demo_vectors demo_too_few, of demo_fpdf "stamp 2026 11 4" 0]
    demo_vectors demo_too_few
  by blast

text \<open>Two runs of the script with six issue descriptions. With dates it runs to the end and
  the page holds ten elements; without dates it stops at the timeline with five.\<close>

lemma full_run:
  "run_app (demo_pandas fleet_frame) demo_sklearn demo_fpdf 0 (stamp 2026 11 4) None 0 =
     ([Title (CHR 0xF0 # CHR 0x9F # CHR 0x9A # CHR 0xA4 # '' Boat Maintenance Insights Demo''),
       Write ''This demo shows how AI can instantly turn messy maintenance logs into actionable intelligence.'',
       FileUploader,
       Pyplot (BarH ''Top 10 Recurring Boat Issue Types'' ''Number of Reports'' ''Issue Type''
                 [(''Mechanical'', 2), (''Hull'', 2), (''Deck'', 1), (''Electrical'', 1)]),
       Pyplot (BarH ''Top 10 Boats by Reported Issues'' ''Number of Reports'' ''Boat Name''
                 [(''alpha'', 3), (''beta'', 2), (''gamma'', 1)]),
       Pyplot (Line ''Reported Issues Over Time'' ''Month'' ''Number of Issues''
                 [((2023, 1), 2), ((2023, 2), 2), ((2023, 3), 1)]),
       Subheader (CHR 0xF0 # CHR 0x9F # CHR 0x94 # CHR 0x8D # '' AI-Categorized Issues''),
       Selectbox [0, 1, 2, 3, 4, 5],
       WriteTable [(Some ''alpha'', Some ''Mechanical'', Some ''engine stalls'')],
       DownloadButton (CHR 0xF0 # CHR 0x9F # CHR 0x93 # CHR 0x84 # '' Download PDF Report'')
         [SetAutoPageBreak True 15, AddPage, SetFont ''Arial'' 14,
          Cell 200 10 ''Boat Issues Report'' True ''C'', SetFont ''Arial'' 12,
          Cell 200 10 ''Generated: 2026-11-04 00:00'' True [],
          Cell 200 10 ''Top Issues:'' True [],
          Cell 200 8 ''Mechanical: 2'' True [], Cell 200 8 ''Hull: 2'' True [],
          Cell 200 8 ''Deck: 1'' True [], Cell 200 8 ''Electrical: 1'' True [],
          Cell 200 10 ''Top Boats:'' True [], Cell 200 8 ''alpha: 3'' True [],
          Cell 200 8 ''beta: 2'' True [], Cell 200 8 ''gamma: 1'' True []]
         ''boat_issues_report.pdf'' ''application/pdf''],
      None)"
  by code_simp

lemma undated_run_stops_at_timeline:
  "run_app (demo_pandas undated_frame) demo_sklearn demo_fpdf 0 (stamp 2026 11 4) None 0 =
     ([Title (CHR 0xF0 # CHR 0x9F # CHR 0x9A # CHR 0xA4 # '' Boat Maintenance Insights Demo''),
       Write ''This demo shows how AI can instantly turn messy maintenance logs into actionable intelligence.'',
       FileUploader,
       Pyplot (BarH ''Top 10 Recurring Boat Issue Types'' ''Number of Reports'' ''Issue Type''
                 [(''Mechanical'', 2), (''Hull'', 2), (''Deck'', 1), (''Electrical'', 1)]),
       Pyplot (BarH ''Top 10 Boats by Reported Issues'' ''Number of Reports'' ''Boat Name''
                 [(''alpha'', 3), (''beta'', 2), (''gamma'', 1)])],
      Some ValueError)"
  by code_simp

end
